theory Spec2Isabelle
  imports Complex_Main "HOL-Library.AList" "HOL-Library.Sublist"
begin

section \<open>JavaScript values used by the gateway\<close>

text \<open>
  A JavaScript call either returns or throws; a throwing call keeps the mutations it made
  before the throw, so every stateful operation below returns the state it leaves behind
  together with its completion.
\<close>

datatype 'a completion = Returned 'a | Thrown string

text \<open>\<open>!s\<close> for a header or field that is a string or \<open>undefined\<close>/\<open>null\<close>.\<close>

definition falsy :: "string option \<Rightarrow> bool" where
  "falsy v = (case v of None \<Rightarrow> True | Some s \<Rightarrow> s = [])"

text \<open>Property keys are strings: \<open>obj[null]\<close> reads the key \<open>"null"\<close>.\<close>

definition js_key :: "string option \<Rightarrow> string" where
  "js_key v = (case v of None \<Rightarrow> ''null'' | Some s \<Rightarrow> s)"

text \<open>\<open>timestamp.toISOString().split('T')[0]\<close>: the text before the first \<open>T\<close>.\<close>

definition dateKey_of :: "string \<Rightarrow> string" where
  "dateKey_of ts = takeWhile (\<lambda>c. c \<noteq> CHR ''T'') ts"

section \<open>Analytics tracker (class AnalyticsTracker)\<close>

datatype call_status = StatusText string | StatusCode int

record api_call =
  call_id :: string
  call_customerId :: string
  call_apiKey :: "string option"
  call_endpoint :: string
  call_method :: string
  call_status :: call_status
  call_duration :: int
  call_timestamp :: string
  call_productId :: "string option"
  call_error :: "string option"

text \<open>The argument object of \<open>trackApiCall\<close>.\<close>

record call_data =
  customerId :: "string option"
  apiKey :: "string option"
  endpoint :: string
  http_method :: string
  status :: call_status
  duration :: int
  productId :: "string option"
  error :: "string option"

record customer_stats =
  cust_totalCalls :: nat
  cust_successfulCalls :: nat
  cust_failedCalls :: nat
  cust_totalDuration :: int
  cust_firstSeen :: string
  cust_lastSeen :: string
  cust_revenue :: rat

text \<open>
  The value held in \<open>uniqueCustomers\<close> of a day: a \<open>Set\<close> (its members in insertion
  order, without repetition), or what a JSON document can hold in that place: a plain
  object without own properties, or an array.
\<close>

datatype unique_customers =
    CustomerSet "string option list"
  | PlainObject
  | PlainArray "string option list"

record daily_stats =
  day_totalCalls :: nat
  day_successfulCalls :: nat
  day_failedCalls :: nat
  uniqueCustomers :: unique_customers
  day_revenue :: rat

text \<open>
  \<open>this.data\<close>. The objects \<open>customers\<close> and \<open>eventCounts\<close> are maps from their keys;
  \<open>dailyStats\<close> keeps its keys in insertion order, which is the order of
  \<open>Object.keys\<close> that \<open>loadData\<close> walks. Counters are natural numbers, money and
  durations exact numbers. Keys that a JavaScript object inherits from its prototype
  (such as \<open>constructor\<close>) are not modelled: a key is present only once it was written.
\<close>

record analytics_data =
  apiCalls :: "api_call list"
  customers :: "string \<rightharpoonup> customer_stats"
  dailyStats :: "(string \<times> daily_stats) list"
  eventCounts :: "string \<rightharpoonup> nat"
  revenue :: rat
  startDate :: string

text \<open>
  The durable file. Its text is represented by the value \<open>JSON.parse\<close> reads from it.
  \<open>JSON.stringify\<close> writes numbers, strings, arrays and plain objects as they are; a
  \<open>Set\<close> has no enumerable own properties and is written as \<open>{}\<close>.
\<close>

datatype json_text = JsonText analytics_data

definition json_of_collection :: "unique_customers \<Rightarrow> unique_customers" where
  "json_of_collection u =
     (case u of CustomerSet xs \<Rightarrow> PlainObject | PlainObject \<Rightarrow> PlainObject
      | PlainArray xs \<Rightarrow> PlainArray xs)"

definition json_of_day :: "daily_stats \<Rightarrow> daily_stats" where
  "json_of_day day = day\<lparr>uniqueCustomers := json_of_collection (uniqueCustomers day)\<rparr>"

definition JSON_stringify :: "analytics_data \<Rightarrow> json_text" where
  "JSON_stringify d =
     JsonText (d\<lparr>dailyStats := map (\<lambda>(k, day). (k, json_of_day day)) (dailyStats d)\<rparr>)"

fun JSON_parse :: "json_text \<Rightarrow> analytics_data" where
  "JSON_parse (JsonText d) = d"

text \<open>
  The tracker object: \<open>this.data\<close> and the content of the file at \<open>this.dataFile\<close>
  (\<open>None\<close> while the file does not exist).
\<close>

record tracker =
  data :: analytics_data
  dataFile :: "json_text option"

definition initial_data :: "string \<Rightarrow> analytics_data" where
  "initial_data now =
     \<lparr>apiCalls = [], customers = Map.empty, dailyStats = [],
      eventCounts = [''tryon_initiated'' \<mapsto> 0, ''photo_uploaded'' \<mapsto> 0,
        ''result_generated'' \<mapsto> 0, ''result_viewed'' \<mapsto> 0, ''add_to_cart'' \<mapsto> 0,
        ''purchase'' \<mapsto> 0, ''api_error'' \<mapsto> 0],
      revenue = 0, startDate = now\<rparr>"

text \<open>\<open>saveData\<close>: a failing write is caught and logged there; the write is taken to succeed.\<close>

definition saveData :: "tracker \<Rightarrow> tracker" where
  "saveData tr = tr\<lparr>dataFile := Some (JSON_stringify (data tr))\<rparr>"

text \<open>\<open>set.add(x)\<close> and \<open>new Set(iterable)\<close>.\<close>

definition set_add :: "'a \<Rightarrow> 'a list \<Rightarrow> 'a list" where
  "set_add x xs = (if x \<in> set xs then xs else xs @ [x])"

definition new_Set :: "'a list \<Rightarrow> 'a list" where
  "new_Set xs = foldl (\<lambda>acc x. set_add x acc) [] xs"

text \<open>
  The loop of \<open>loadData\<close> over \<open>Object.keys(this.data.dailyStats)\<close>: every collection
  that is not a \<open>Set\<close> is handed to \<open>new Set\<close>, which throws a TypeError on a value
  that is not iterable. The days reached before the throw stay converted.
\<close>

fun restore_days :: "(string \<times> daily_stats) list \<Rightarrow> (string \<times> daily_stats) list \<times> bool" where
  "restore_days [] = ([], False)"
| "restore_days ((k, day) # rest) =
     (case uniqueCustomers day of
        CustomerSet xs \<Rightarrow>
          (let (rest', threw) = restore_days rest in ((k, day) # rest', threw))
      | PlainArray xs \<Rightarrow>
          (let (rest', threw) = restore_days rest
           in ((k, day\<lparr>uniqueCustomers := CustomerSet (new_Set xs)\<rparr>) # rest', threw))
      | PlainObject \<Rightarrow> ((k, day) # rest, True))"

text \<open>
  \<open>loadData\<close>: a missing file makes \<open>readFile\<close> throw; every throw inside the
  \<open>try\<close> ends in the \<open>catch\<close>, which saves the data as they stand.
\<close>

definition loadData :: "tracker \<Rightarrow> tracker" where
  "loadData tr =
     (case dataFile tr of
        None \<Rightarrow> saveData tr
      | Some txt \<Rightarrow>
          (let parsed = JSON_parse txt;
               (days, threw) = restore_days (dailyStats parsed);
               tr' = tr\<lparr>data := parsed\<lparr>dailyStats := days\<rparr>\<rparr>
           in if threw then saveData tr' else tr'))"

text \<open>The constructor, before its call of \<open>loadData\<close>, and a restart on an existing file.\<close>

definition new_tracker :: "json_text option \<Rightarrow> string \<Rightarrow> tracker" where
  "new_tracker file now = \<lparr>data = initial_data now, dataFile = file\<rparr>"

definition restart :: "tracker \<Rightarrow> string \<Rightarrow> tracker" where
  "restart tr now = loadData (new_tracker (dataFile tr) now)"

definition is_success :: "call_status \<Rightarrow> bool" where
  "is_success s = (s = StatusText ''success'' \<or> s = StatusCode 200)"

definition new_customer_stats :: "string \<Rightarrow> customer_stats" where
  "new_customer_stats now =
     \<lparr>cust_totalCalls = 0, cust_successfulCalls = 0, cust_failedCalls = 0,
      cust_totalDuration = 0, cust_firstSeen = now, cust_lastSeen = now, cust_revenue = 0\<rparr>"

definition new_daily_stats :: daily_stats where
  "new_daily_stats =
     \<lparr>day_totalCalls = 0, day_successfulCalls = 0, day_failedCalls = 0,
      uniqueCustomers = CustomerSet [], day_revenue = 0\<rparr>"

definition make_api_call :: "call_data \<Rightarrow> string \<Rightarrow> string \<Rightarrow> api_call" where
  "make_api_call cd rid now =
     \<lparr>call_id = rid,
      call_customerId = (if falsy (customerId cd) then ''unknown'' else the (customerId cd)),
      call_apiKey = apiKey cd, call_endpoint = endpoint cd, call_method = http_method cd,
      call_status = status cd, call_duration = duration cd, call_timestamp = now,
      call_productId = productId cd, call_error = error cd\<rparr>"

text \<open>The customer rollup of \<open>trackApiCall\<close>.\<close>

definition update_customer :: "call_data \<Rightarrow> string \<Rightarrow> (string \<rightharpoonup> customer_stats) \<Rightarrow> (string \<rightharpoonup> customer_stats)" where
  "update_customer cd now cs =
     (let key = js_key (customerId cd);
          c0 = (case cs key of None \<Rightarrow> new_customer_stats now | Some c \<Rightarrow> c);
          c1 = c0\<lparr>cust_totalCalls := cust_totalCalls c0 + 1,
                  cust_totalDuration := cust_totalDuration c0 + duration cd,
                  cust_lastSeen := now\<rparr>;
          c2 = (if is_success (status cd)
                then c1\<lparr>cust_successfulCalls := cust_successfulCalls c1 + 1\<rparr>
                else c1\<lparr>cust_failedCalls := cust_failedCalls c1 + 1\<rparr>)
      in cs(key \<mapsto> c2))"

text \<open>
  The daily aggregate of \<open>trackApiCall\<close>: \<open>totalCalls++\<close>, then
  \<open>uniqueCustomers.add\<close>, which throws a TypeError on a collection that is not a
  \<open>Set\<close>, then the success or failure counter.
\<close>

definition update_day :: "call_data \<Rightarrow> daily_stats \<Rightarrow> daily_stats \<times> bool" where
  "update_day cd day0 =
     (let day1 = day0\<lparr>day_totalCalls := day_totalCalls day0 + 1\<rparr>
      in case uniqueCustomers day1 of
           CustomerSet xs \<Rightarrow>
             (let day2 = day1\<lparr>uniqueCustomers := CustomerSet (set_add (customerId cd) xs)\<rparr>
              in (if is_success (status cd)
                  then day2\<lparr>day_successfulCalls := day_successfulCalls day2 + 1\<rparr>
                  else day2\<lparr>day_failedCalls := day_failedCalls day2 + 1\<rparr>, False))
         | PlainObject \<Rightarrow> (day1, True)
         | PlainArray xs \<Rightarrow> (day1, True))"

definition trackApiCall :: "tracker \<Rightarrow> call_data \<Rightarrow> string \<Rightarrow> string \<Rightarrow> tracker \<times> api_call completion" where
  "trackApiCall tr cd rid now =
     (let d = data tr;
          dateKey = dateKey_of now;
          apiCall = make_api_call cd rid now;
          day0 = (case map_of (dailyStats d) dateKey of None \<Rightarrow> new_daily_stats | Some day \<Rightarrow> day);
          (day', threw) = update_day cd day0;
          d' = d\<lparr>apiCalls := apiCalls d @ [apiCall],
                 customers := update_customer cd now (customers d),
                 dailyStats := AList.update dateKey day' (dailyStats d)\<rparr>;
          tr' = tr\<lparr>data := d'\<rparr>
      in if threw then (tr', Thrown ''TypeError: uniqueCustomers.add is not a function'')
         else (saveData tr', Returned apiCall))"

text \<open>The second argument of \<open>trackEvent\<close>: the fields the tracker reads.\<close>

record event_data =
  ev_revenue :: "rat option"
  ev_customerId :: "string option"

definition no_data :: event_data where
  "no_data = \<lparr>ev_revenue = None, ev_customerId = None\<rparr>"

definition bump_event :: "string \<Rightarrow> (string \<rightharpoonup> nat) \<Rightarrow> (string \<rightharpoonup> nat)" where
  "bump_event eventName ec =
     (case ec eventName of Some n \<Rightarrow> ec(eventName \<mapsto> n + 1) | None \<Rightarrow> ec(eventName \<mapsto> 1))"

definition add_revenue :: "event_data \<Rightarrow> string \<Rightarrow> rat \<Rightarrow> analytics_data \<Rightarrow> analytics_data" where
  "add_revenue ev dateKey r d =
     (let cs = (case ev_customerId ev of
                  None \<Rightarrow> customers d
                | Some cid \<Rightarrow>
                    (if cid = [] then customers d
                     else case customers d cid of
                            None \<Rightarrow> customers d
                          | Some c \<Rightarrow> (customers d)(cid \<mapsto> c\<lparr>cust_revenue := cust_revenue c + r\<rparr>)));
          ds = (case map_of (dailyStats d) dateKey of
                  None \<Rightarrow> dailyStats d
                | Some day \<Rightarrow>
                    AList.update dateKey (day\<lparr>day_revenue := day_revenue day + r\<rparr>) (dailyStats d))
      in d\<lparr>revenue := revenue d + r, customers := cs, dailyStats := ds\<rparr>)"

definition trackEvent :: "tracker \<Rightarrow> string \<Rightarrow> event_data \<Rightarrow> string \<Rightarrow> tracker" where
  "trackEvent tr eventName ev now =
     (let d = data tr;
          d1 = d\<lparr>eventCounts := bump_event eventName (eventCounts d)\<rparr>;
          d2 = (case ev_revenue ev of
                  None \<Rightarrow> d1
                | Some r \<Rightarrow> if r = 0 then d1 else add_revenue ev (dateKey_of now) r d1)
      in saveData (tr\<lparr>data := d2\<rparr>))"

definition reset :: "tracker \<Rightarrow> string \<Rightarrow> tracker" where
  "reset tr now = saveData (tr\<lparr>data := initial_data now\<rparr>)"

subsection \<open>Conversion funnel\<close>

text \<open>
  \<open>x.toFixed(1)\<close> for a number \<open>x \<ge> 0\<close>: the decimal text of \<open>x\<close> rounded to tenths,
  halves upwards. Division and multiplication are taken exactly.
\<close>

definition digit_char :: "nat \<Rightarrow> char" where
  "digit_char n = ''0123456789'' ! (n mod 10)"

fun show_nat :: "nat \<Rightarrow> string" where
  "show_nat n = (if n < 10 then [digit_char n] else show_nat (n div 10) @ [digit_char n])"

declare show_nat.simps [simp del]









subsection \<open>Sequences of tracker operations\<close>

datatype analytics_op = ApiCall call_data string string | Event string event_data string

fun apply_op :: "tracker \<Rightarrow> analytics_op \<Rightarrow> tracker" where
  "apply_op tr (ApiCall cd rid now) = fst (trackApiCall tr cd rid now)"
| "apply_op tr (Event name ev now) = trackEvent tr name ev now"

definition run_ops :: "tracker \<Rightarrow> analytics_op list \<Rightarrow> tracker" where
  "run_ops tr ops = foldl apply_op tr ops"

definition customer_balanced :: "customer_stats \<Rightarrow> bool" where
  "customer_balanced c = (cust_totalCalls c = cust_successfulCalls c + cust_failedCalls c)"

definition day_balanced :: "daily_stats \<Rightarrow> bool" where
  "day_balanced day = (day_totalCalls day = day_successfulCalls day + day_failedCalls day)"

definition is_Set :: "unique_customers \<Rightarrow> bool" where
  "is_Set u = (case u of CustomerSet xs \<Rightarrow> True | PlainObject \<Rightarrow> False | PlainArray xs \<Rightarrow> False)"

text \<open>Every customer rollup and every daily aggregate has total = successful + failed.\<close>

definition rollups_balanced :: "analytics_data \<Rightarrow> bool" where
  "rollups_balanced d =
     ((\<forall>key c. customers d key = Some c \<longrightarrow>
          cust_totalCalls c = cust_successfulCalls c + cust_failedCalls c) \<and>
      (\<forall>(k, day) \<in> set (dailyStats d).
          day_totalCalls day = day_successfulCalls day + day_failedCalls day))"

text \<open>The invariant behind it: the days' collections also stay \<open>Set\<close>s.\<close>

definition rollups_consistent :: "analytics_data \<Rightarrow> bool" where
  "rollups_consistent d =
     ((\<forall>key c. customers d key = Some c \<longrightarrow> customer_balanced c) \<and>
      (\<forall>(k, day) \<in> set (dailyStats d). day_balanced day \<and> is_Set (uniqueCustomers day)))"

section \<open>Proxy server with analytics (vmize-proxy-server-with-analytics.js)\<close>

record demo_customer =
  dk_customerId :: string
  email :: string
  plan :: string
  limit :: int
  used :: int

type_synonym demo_keys = "string \<rightharpoonup> demo_customer"

definition demo_key :: string where
  "demo_key = ''vmize_pk_demo_test_1234567890''"

definition demoKeys0 :: demo_keys where
  "demoKeys0 = [demo_key \<mapsto>
     \<lparr>dk_customerId = ''demo_customer'', email = ''demo@example.com'',
      plan = ''professional'', limit = 500, used = 0\<rparr>]"

text \<open>
  Response bodies, by the fields the handlers write: \<open>{error}\<close>;
  \<open>{error, limit, used}\<close>; \<open>{prediction_id, status, used, remaining}\<close>;
  \<open>{error, used, remaining}\<close>; \<open>{customerId, plan, limit, used, remaining}\<close> (the usage
  query also formats \<open>percentageUsed\<close>, which is left out).
\<close>

datatype body =
    ErrorBody string
  | LimitBody string int int
  | TryOnBody "string option" "string option" "int option" "int option"
  | TryOnErrorBody string "int option" "int option"
  | UsageBody string string int int int

record response =
  http_status :: nat
  body :: body

fun body_used :: "body \<Rightarrow> int option" where
  "body_used (TryOnBody i s u r) = u"
| "body_used (TryOnErrorBody e u r) = u"
| "body_used (UsageBody c p l u r) = Some u"
| "body_used (LimitBody e l u) = Some u"
| "body_used (ErrorBody e) = None"

fun body_remaining :: "body \<Rightarrow> int option" where
  "body_remaining (TryOnBody i s u r) = r"
| "body_remaining (TryOnErrorBody e u r) = r"
| "body_remaining (UsageBody c p l u r) = Some r"
| "body_remaining (LimitBody e l u) = None"
| "body_remaining (ErrorBody e) = None"

text \<open>
  \<open>verifyVmizeKey\<close>: \<open>Inl\<close> is the response it sends itself; \<open>Inr\<close> is the call of
  \<open>next()\<close> with \<open>req.apiKey\<close> and \<open>req.customer\<close> set.
\<close>

definition verifyVmizeKey :: "demo_keys \<Rightarrow> string option \<Rightarrow> response + (string \<times> demo_customer)" where
  "verifyVmizeKey dk hdr =
     (if falsy hdr then Inl \<lparr>http_status = 401, body = ErrorBody ''API key required''\<rparr>
      else let k = the hdr in
        if \<not> prefix ''vmize_pk_'' k
        then Inl \<lparr>http_status = 401, body = ErrorBody ''Invalid API key format''\<rparr>
        else (case dk k of
                None \<Rightarrow> Inl \<lparr>http_status = 401, body = ErrorBody ''Invalid API key''\<rparr>
              | Some c \<Rightarrow>
                  if used c \<ge> limit c
                  then Inl \<lparr>http_status = 429,
                            body = LimitBody ''Usage limit exceeded'' (limit c) (used c)\<rparr>
                  else Inr (k, c)))"

text \<open>The fields of \<open>req.body\<close> that \<open>doTryOn\<close> reads.\<close>

record tryon_body =
  model_image :: "string option"
  garment_image :: "string option"
  category :: "string option"
  mode :: "string option"
  age :: "int option"
  body_productId :: "string option"

record fashn_inputs =
  in_model_image :: string
  in_garment_image :: string
  in_category :: string
  in_mode :: string
  in_age :: "int option"

record fashn_payload =
  model_name :: string
  inputs :: fashn_inputs

text \<open>The provider's reply body: \<open>id\<close>, \<open>status\<close> and \<open>error.message\<close>.\<close>

record fashn_data =
  fd_id :: "string option"
  fd_status :: "string option"
  fd_error_message :: "string option"

text \<open>What happens to a request sent upstream.\<close>

datatype upstream_outcome =
    Timeout
  | NetworkFailure string
  | HttpResponse nat fashn_data

text \<open>
  \<open>axios.post\<close> with its default \<open>validateStatus\<close>: the promise resolves on a status
  from 200 to 299 and rejects otherwise, with \<open>error.response\<close> set when a reply came.
\<close>

datatype axios_result =
    Resolved nat fashn_data
  | Rejected "nat option" string

definition axios_post :: "upstream_outcome \<Rightarrow> axios_result" where
  "axios_post out =
     (case out of
        Timeout \<Rightarrow> Rejected None ''timeout of 30000ms exceeded''
      | NetworkFailure msg \<Rightarrow> Rejected None msg
      | HttpResponse st d \<Rightarrow>
          if 200 \<le> st \<and> st < 300 then Resolved st d
          else Rejected (Some st) (''Request failed with status code '' @ show_nat st))"

text \<open>
  The process environment: the provider key, and the outcome of the checks on
  \<open>new URL(FASHN_BASE)\<close> (\<open>None\<close> when the URL passes, else the message thrown).
\<close>

record config =
  FASHN_API_KEY :: "string option"
  fashn_base_error :: "string option"

text \<open>
  The clock and the random call id read while one request is handled; one reading serves
  all tracker calls of the request.
\<close>

record clock =
  clock_now :: string
  clock_rid :: string
  clock_elapsed :: int

record server =
  demoKeys :: demo_keys
  analytics :: tracker

text \<open>A destructuring default (\<open>x = d\<close>) and \<open>x || d\<close>.\<close>

definition default_to :: "string \<Rightarrow> string option \<Rightarrow> string" where
  "default_to d v = (case v of None \<Rightarrow> d | Some s \<Rightarrow> s)"

definition or_else :: "string option \<Rightarrow> string \<Rightarrow> string" where
  "or_else v d = (if falsy v then d else the v)"

definition make_payload :: "tryon_body \<Rightarrow> fashn_payload" where
  "make_payload b =
     \<lparr>model_name = ''tryon-v1.6'',
      inputs = \<lparr>in_model_image = the (model_image b), in_garment_image = the (garment_image b),
                in_category = default_to ''auto'' (category b),
                in_mode = default_to ''quality'' (mode b), in_age = age b\<rparr>\<rparr>"

text \<open>\<open>req.customer?.customerId || null\<close>.\<close>

definition customerId_or_null :: "demo_customer option \<Rightarrow> string option" where
  "customerId_or_null c =
     (case c of None \<Rightarrow> None
      | Some c' \<Rightarrow> if dk_customerId c' = [] then None else Some (dk_customerId c'))"

text \<open>\<open>req.apiKey && demoKeys[req.apiKey] ? f(demoKeys[req.apiKey]) : undefined\<close>.\<close>

definition key_field :: "demo_keys \<Rightarrow> string option \<Rightarrow> (demo_customer \<Rightarrow> int) \<Rightarrow> int option" where
  "key_field dk k f =
     (if falsy k then None else (case dk (the k) of None \<Rightarrow> None | Some c \<Rightarrow> Some (f c)))"

text \<open>\<open>if (req.apiKey && demoKeys[req.apiKey]) demoKeys[req.apiKey].used++\<close>.\<close>

definition increment_usage :: "demo_keys \<Rightarrow> string option \<Rightarrow> demo_keys" where
  "increment_usage dk k =
     (if falsy k then dk
      else (case dk (the k) of None \<Rightarrow> dk | Some c \<Rightarrow> dk(the k \<mapsto> c\<lparr>used := used c + 1\<rparr>)))"

text \<open>
  The \<open>try\<close> block of \<open>doTryOn\<close>: the server state it leaves, its completion, and the
  payloads it has sent upstream.
\<close>

definition tryon_attempt ::
  "config \<Rightarrow> (fashn_payload \<Rightarrow> upstream_outcome) \<Rightarrow> clock \<Rightarrow> server \<Rightarrow>
   demo_customer option \<Rightarrow> string option \<Rightarrow> tryon_body \<Rightarrow>
   server \<times> response completion \<times> fashn_payload list" where
  "tryon_attempt cfg upstream clk srv cust key b =
     (if falsy (FASHN_API_KEY cfg) then (srv, Thrown ''FASHN_API_KEY not configured'', [])
      else if falsy (model_image b) \<or> falsy (garment_image b)
      then (srv, Thrown ''Both model_image and garment_image are required'', [])
      else
        let cid = customerId_or_null cust;
            srv1 = srv\<lparr>analytics := trackEvent (analytics srv) ''photo_uploaded''
                      \<lparr>ev_revenue = None, ev_customerId = cid\<rparr> (clock_now clk)\<rparr>;
            payload = make_payload b
        in (case fashn_base_error cfg of
              Some msg \<Rightarrow> (srv1, Thrown (''Invalid FASHN_API_URL: '' @ msg), [])
            | None \<Rightarrow>
               (case axios_post (upstream payload) of
                  Rejected resp msg \<Rightarrow>
                    (srv1,
                     Thrown (case resp of Some st \<Rightarrow> ''Fashn API error: '' @ show_nat st | None \<Rightarrow> msg),
                     [payload])
                | Resolved st d \<Rightarrow>
                    if st \<ge> 400
                    then (srv1, Thrown (or_else (fd_error_message d) ''Fashn API error''), [payload])
                    else
                      let srv2 = srv1\<lparr>demoKeys := increment_usage (demoKeys srv1) key\<rparr>;
                          (a, tracked) = trackApiCall (analytics srv2)
                             \<lparr>customerId = cid, apiKey = key, endpoint = ''/api/tryon'',
                              http_method = ''POST'', status = StatusText ''success'',
                              duration = clock_elapsed clk, productId = body_productId b,
                              error = None\<rparr> (clock_rid clk) (clock_now clk);
                          srv3 = srv2\<lparr>analytics := a\<rparr>
                      in (case tracked of
                            Thrown msg \<Rightarrow> (srv3, Thrown msg, [payload])
                          | Returned call \<Rightarrow>
                              (srv3,
                               Returned \<lparr>http_status = 200,
                                 body = TryOnBody (fd_id d) (fd_status d)
                                   (key_field (demoKeys srv3) key used)
                                   (key_field (demoKeys srv3) key (\<lambda>c. limit c - used c))\<rparr>,
                               [payload])))))"

text \<open>
  The \<open>catch\<close> block: the failed call and the \<open>api_error\<close> event are tracked, a
  rejection of either is swallowed, and the reply is a 500.
\<close>

definition tryon_failure :: "clock \<Rightarrow> server \<Rightarrow> demo_customer option \<Rightarrow> string option \<Rightarrow> string \<Rightarrow> server \<times> response" where
  "tryon_failure clk srv cust key msg =
     (let cid = customerId_or_null cust;
          a1 = fst (trackApiCall (analytics srv)
                 \<lparr>customerId = cid, apiKey = key, endpoint = ''/api/tryon'', http_method = ''POST'',
                  status = StatusText ''error'', duration = clock_elapsed clk, productId = None,
                  error = Some msg\<rparr> (clock_rid clk) (clock_now clk));
          a2 = trackEvent a1 ''api_error'' \<lparr>ev_revenue = None, ev_customerId = cid\<rparr> (clock_now clk);
          srv' = srv\<lparr>analytics := a2\<rparr>
      in (srv', \<lparr>http_status = 500,
                 body = TryOnErrorBody msg (key_field (demoKeys srv') key used)
                          (key_field (demoKeys srv') key (\<lambda>c. limit c - used c))\<rparr>))"

definition doTryOn ::
  "config \<Rightarrow> (fashn_payload \<Rightarrow> upstream_outcome) \<Rightarrow> clock \<Rightarrow> server \<Rightarrow>
   demo_customer option \<Rightarrow> string option \<Rightarrow> tryon_body \<Rightarrow>
   server \<times> response \<times> fashn_payload list" where
  "doTryOn cfg upstream clk srv cust key b =
     (let srv0 = srv\<lparr>analytics := trackEvent (analytics srv) ''tryon_initiated''
                    \<lparr>ev_revenue = None, ev_customerId = customerId_or_null cust\<rparr> (clock_now clk)\<rparr>
      in (case tryon_attempt cfg upstream clk srv0 cust key b of
            (srv1, Returned resp, sent) \<Rightarrow> (srv1, resp, sent)
          | (srv1, Thrown msg, sent) \<Rightarrow>
              (let (srv2, resp) = tryon_failure clk srv1 cust key msg in (srv2, resp, sent))))"

text \<open>The routes: \<open>POST /api/tryon\<close>, \<open>POST /api/tryon/generate\<close>, \<open>GET /api/usage\<close>.\<close>

definition route_tryon ::
  "config \<Rightarrow> (fashn_payload \<Rightarrow> upstream_outcome) \<Rightarrow> clock \<Rightarrow> server \<Rightarrow>
   string option \<Rightarrow> tryon_body \<Rightarrow> server \<times> response \<times> fashn_payload list" where
  "route_tryon cfg upstream clk srv hdr b =
     (case verifyVmizeKey (demoKeys srv) hdr of
        Inl resp \<Rightarrow> (srv, resp, [])
      | Inr (k, c) \<Rightarrow> doTryOn cfg upstream clk srv (Some c) (Some k) b)"

definition route_tryon_generate ::
  "config \<Rightarrow> (fashn_payload \<Rightarrow> upstream_outcome) \<Rightarrow> clock \<Rightarrow> server \<Rightarrow>
   string option \<Rightarrow> tryon_body \<Rightarrow> server \<times> response \<times> fashn_payload list" where
  "route_tryon_generate cfg upstream clk srv hdr b =
     (let hdr' = (if falsy hdr then Some demo_key else hdr)
      in (case verifyVmizeKey (demoKeys srv) hdr' of
            Inl resp \<Rightarrow> (srv, resp, [])
          | Inr (k, c) \<Rightarrow> doTryOn cfg upstream clk srv (Some c) (Some k) b))"

definition route_usage :: "server \<Rightarrow> string option \<Rightarrow> response" where
  "route_usage srv hdr =
     (case verifyVmizeKey (demoKeys srv) hdr of
        Inl resp \<Rightarrow> resp
      | Inr (k, c) \<Rightarrow>
          \<lparr>http_status = 200,
           body = UsageBody (dk_customerId c) (plan c) (limit c) (used c) (limit c - used c)\<rparr>)"

text \<open>
  Two notions for stating properties of \<open>doTryOn\<close>: the upstream request fails (no reply
  in time, no connection, or a reply outside 200 to 299); and the request gets as far as
  the upstream call (provider key configured, both images present, provider URL valid).
\<close>

definition upstream_fails :: "upstream_outcome \<Rightarrow> bool" where
  "upstream_fails out =
     (case out of Timeout \<Rightarrow> True | NetworkFailure msg \<Rightarrow> True
      | HttpResponse st d \<Rightarrow> \<not> (200 \<le> st \<and> st < 300))"

definition request_ready :: "config \<Rightarrow> tryon_body \<Rightarrow> bool" where
  "request_ready cfg b =
     (\<not> falsy (FASHN_API_KEY cfg) \<and> \<not> falsy (model_image b) \<and> \<not> falsy (garment_image b)
      \<and> fashn_base_error cfg = None)"

section \<open>Plain proxy server (vmize-proxy-server.js)\<close>

record proxy_customer =
  pc_customerId :: string
  pc_plan :: string
  pc_status :: string
  planLimit :: int
  usageThisMonth :: int

text \<open>Its bodies: \<open>{error, message}\<close>, \<open>{id, status, message}\<close>, and the usage report
  \<open>{customerId, plan, usageThisMonth, planLimit, remaining}\<close> (\<open>percentUsed\<close> left out).\<close>

datatype proxy_body =
    MessageBody string string
  | InitiatedBody "string option" string string
  | ProxyUsageBody string string int int int

record proxy_response =
  proxy_status :: nat
  proxy_body :: proxy_body

definition verifyCustomerApiKey ::
  "(string \<rightharpoonup> proxy_customer) \<Rightarrow> string option \<Rightarrow> proxy_response + proxy_customer" where
  "verifyCustomerApiKey store hdr =
     (if falsy hdr
      then Inl \<lparr>proxy_status = 401,
                proxy_body = MessageBody ''Unauthorized'' ''Missing X-Vmize-API-Key header''\<rparr>
      else let k = the hdr in
        if \<not> prefix ''vmize_pk_live_'' k \<and> \<not> prefix ''vmize_pk_test_'' k
        then Inl \<lparr>proxy_status = 401,
                  proxy_body = MessageBody ''Unauthorized'' ''Invalid API key format''\<rparr>
        else (case store k of
                None \<Rightarrow> Inl \<lparr>proxy_status = 401,
                              proxy_body = MessageBody ''Unauthorized'' ''Invalid API key''\<rparr>
              | Some c \<Rightarrow>
                  if pc_status c \<noteq> ''active''
                  then Inl \<lparr>proxy_status = 403,
                            proxy_body = MessageBody ''Forbidden''
                              ''Subscription inactive. Please update billing.''\<rparr>
                  else if usageThisMonth c \<ge> planLimit c
                  then Inl \<lparr>proxy_status = 429,
                            proxy_body = MessageBody ''Quota Exceeded''
                              ''Monthly try-on limit reached. Upgrade your plan.''\<rparr>
                  else Inr c))"

text \<open>
  \<open>POST /api/tryon\<close> of the plain proxy, on the two image fields of the body. \<open>fetch\<close>
  rejects when no reply comes; \<open>response.ok\<close> holds on a status from 200 to 299. Its
  \<open>trackUsage\<close> only logs, so the store is not changed. The result tells whether a
  request went upstream.
\<close>

definition proxy_tryon ::
  "(string \<rightharpoonup> proxy_customer) \<Rightarrow> upstream_outcome \<Rightarrow> string option \<Rightarrow>
   string option \<Rightarrow> string option \<Rightarrow> proxy_response \<times> bool" where
  "proxy_tryon store upstream hdr model_img garment_img =
     (case verifyCustomerApiKey store hdr of
        Inl resp \<Rightarrow> (resp, False)
      | Inr c \<Rightarrow>
          if falsy model_img \<or> falsy garment_img
          then (\<lparr>proxy_status = 400,
                 proxy_body = MessageBody ''Bad Request''
                   ''model_image and garment_image are required''\<rparr>, False)
          else (case upstream of
                  HttpResponse st d \<Rightarrow>
                    if 200 \<le> st \<and> st < 300
                    then (\<lparr>proxy_status = 200,
                           proxy_body = InitiatedBody (fd_id d) ''processing''
                             ''Try-on initiated successfully''\<rparr>, True)
                    else (\<lparr>proxy_status = 500,
                           proxy_body = MessageBody ''Internal Server Error''
                             ''Failed to process try-on request''\<rparr>, True)
                | Timeout \<Rightarrow>
                    (\<lparr>proxy_status = 500,
                      proxy_body = MessageBody ''Internal Server Error''
                        ''Failed to process try-on request''\<rparr>, True)
                | NetworkFailure msg \<Rightarrow>
                    (\<lparr>proxy_status = 500,
                      proxy_body = MessageBody ''Internal Server Error''
                        ''Failed to process try-on request''\<rparr>, True)))"

definition proxy_usage :: "(string \<rightharpoonup> proxy_customer) \<Rightarrow> string option \<Rightarrow> proxy_response" where
  "proxy_usage store hdr =
     (case verifyCustomerApiKey store hdr of
        Inl resp \<Rightarrow> resp
      | Inr c \<Rightarrow>
          \<lparr>proxy_status = 200,
           proxy_body = ProxyUsageBody (pc_customerId c) (pc_plan c) (usageThisMonth c)
             (planLimit c) (planLimit c - usageThisMonth c)\<rparr>)"

section \<open>Monthly billing job (the first \<open>cron.schedule\<close> callback of the backend server)\<close>

record billing_customer =
  bc_email :: string
  stripeCustomerId :: string
  subscriptionStatus :: string
  currentMonth_tryons :: nat
  usage_limit :: nat
  overage_rate :: rat
  history :: "(string \<times> nat) list"

text \<open>
  Modelled from the spec: \<open>Customer.calculateOverage\<close> (models/Customer is not among the
  sources): \<open>overageUnits = max(0, currentMonthUsage - planLimit)\<close> and
  \<open>cost = overageUnits * perUnitOverageRate(plan)\<close>.
\<close>

definition calculateOverage :: "billing_customer \<Rightarrow> nat \<times> rat" where
  "calculateOverage c =
     (let overage = (if currentMonth_tryons c > usage_limit c
                     then currentMonth_tryons c - usage_limit c else 0)
      in (overage, of_nat overage * overage_rate c))"

text \<open>
  Modelled from the spec: \<open>Customer.resetMonthlyUsage\<close> (models/Customer is not among the
  sources): the current-month usage is reset to zero and the prior value is archived into
  the usage history under the month key.
\<close>

definition resetMonthlyUsage :: "string \<Rightarrow> billing_customer \<Rightarrow> billing_customer" where
  "resetMonthlyUsage month c =
     c\<lparr>history := history c @ [(month, currentMonth_tryons c)], currentMonth_tryons := 0\<rparr>"

text \<open>
  The arguments of \<open>stripeService.createOverageCharge\<close>. The billing collaborator is a
  parameter: it tells for each request whether the charge goes through (\<open>True\<close>) or the
  call throws.
\<close>

record charge_request =
  charge_customer :: string
  charge_amount :: rat
  charge_memo :: string

definition overage_charge :: "billing_customer \<Rightarrow> charge_request" where
  "overage_charge c =
     \<lparr>charge_customer = stripeCustomerId c, charge_amount = snd (calculateOverage c),
      charge_memo = ''Usage overage: '' @ show_nat (fst (calculateOverage c)) @ '' try-ons''\<rparr>"

text \<open>
  The \<open>for\<close> loop over the customers found. It stands inside one \<open>try\<close>: a throwing
  charge leaves the loop for the \<open>catch\<close>, which logs the error. The result is the
  customer documents as the run leaves them, the charge requests issued, and whether the
  loop reached its end.
\<close>

fun billing_loop ::
  "(charge_request \<Rightarrow> bool) \<Rightarrow> string \<Rightarrow> billing_customer list \<Rightarrow>
   billing_customer list \<times> charge_request list \<times> bool" where
  "billing_loop stripe month [] = ([], [], True)"
| "billing_loop stripe month (c # cs) =
     (if snd (calculateOverage c) > 0
      then (if stripe (overage_charge c)
            then (let (cs', reqs, finished) = billing_loop stripe month cs
                  in (resetMonthlyUsage month c # cs', overage_charge c # reqs, finished))
            else (c # cs, [overage_charge c], False))
      else (let (cs', reqs, finished) = billing_loop stripe month cs
            in (resetMonthlyUsage month c # cs', reqs, finished)))"

definition monthly_billing_job ::
  "(charge_request \<Rightarrow> bool) \<Rightarrow> string \<Rightarrow> billing_customer list \<Rightarrow>
   billing_customer list \<times> charge_request list \<times> bool" where
  "monthly_billing_job stripe month directory =
     billing_loop stripe month (filter (\<lambda>c. subscriptionStatus c = ''active'') directory)"

text \<open>The customers a run gets through: those before the first one whose charge throws.\<close>

definition charge_throws :: "(charge_request \<Rightarrow> bool) \<Rightarrow> billing_customer \<Rightarrow> bool" where
  "charge_throws stripe c = (snd (calculateOverage c) > 0 \<and> \<not> stripe (overage_charge c))"

definition processed :: "(charge_request \<Rightarrow> bool) \<Rightarrow> billing_customer list \<Rightarrow> nat" where
  "processed stripe cs = length (takeWhile (\<lambda>c. \<not> charge_throws stripe c) cs)"

section \<open>Example inputs\<close>

definition example_call :: "call_status \<Rightarrow> call_data" where
  "example_call st =
     \<lparr>customerId = Some ''demo_customer'', apiKey = Some ''vmize_pk_demo_test_1234567890'',
      endpoint = ''/api/tryon'', http_method = ''POST'', status = st,
      duration = 1200, productId = None, error = None\<rparr>"

definition example_ops :: "analytics_op list" where
  "example_ops =
     [Event ''tryon_initiated'' no_data ''2025-01-01T10:00:00.000Z'',
      ApiCall (example_call (StatusText ''success'')) ''call_1'' ''2025-01-01T10:00:05.000Z'',
      Event ''purchase'' \<lparr>ev_revenue = Some 20, ev_customerId = Some ''demo_customer''\<rparr>
        ''2025-01-01T10:05:00.000Z'',
      ApiCall (example_call (StatusText ''error'')) ''call_2'' ''2025-01-02T09:00:00.000Z'',
      ApiCall (example_call (StatusCode 200)) ''call_3'' ''2025-01-02T09:30:00.000Z'']"




text \<open>A tracker that has recorded one successful call of the demo customer.\<close>

definition one_call_tracker :: tracker where
  "one_call_tracker =
     fst (trackApiCall (new_tracker None ''2025-01-01T09:00:00.000Z'')
            (example_call (StatusText ''success'')) ''call_1'' ''2025-01-01T10:00:05.000Z'')"

definition example_config :: config where
  "example_config = \<lparr>FASHN_API_KEY = Some ''fa-secret-key'', fashn_base_error = None\<rparr>"

definition example_body :: tryon_body where
  "example_body =
     \<lparr>model_image = Some ''https://img.example.com/model.jpg'',
      garment_image = Some ''https://img.example.com/garment.jpg'',
      category = None, mode = None, age = None, body_productId = None\<rparr>"

definition example_clock :: "string \<Rightarrow> clock" where
  "example_clock r =
     \<lparr>clock_now = ''2025-01-01T10:00:00.000Z'', clock_rid = r, clock_elapsed = 1500\<rparr>"

definition upstream_accepts :: "fashn_payload \<Rightarrow> upstream_outcome" where
  "upstream_accepts p =
     HttpResponse 200 \<lparr>fd_id = Some ''pred_1'', fd_status = Some ''starting'',
                       fd_error_message = None\<rparr>"

definition upstream_times_out :: "fashn_payload \<Rightarrow> upstream_outcome" where
  "upstream_times_out p = Timeout"

text \<open>The server as it starts, and with the demo customer at a given limit and usage.\<close>

definition demo_at :: "int \<Rightarrow> int \<Rightarrow> demo_customer" where
  "demo_at l u =
     \<lparr>dk_customerId = ''demo_customer'', email = ''demo@example.com'',
      plan = ''professional'', limit = l, used = u\<rparr>"

definition server_at :: "int \<Rightarrow> int \<Rightarrow> server" where
  "server_at l u =
     \<lparr>demoKeys = [demo_key \<mapsto> demo_at l u],
      analytics = new_tracker None ''2025-01-01T09:00:00.000Z''\<rparr>"

definition server0 :: server where
  "server0 = \<lparr>demoKeys = demoKeys0, analytics = new_tracker None ''2025-01-01T09:00:00.000Z''\<rparr>"

text \<open>A store of the plain proxy, and two active customers over their limit for the
  billing job, with a collaborator that fails for the first of them only.\<close>

definition example_store :: "string \<rightharpoonup> proxy_customer" where
  "example_store = [''vmize_pk_live_store123_1735725600000'' \<mapsto>
     \<lparr>pc_customerId = ''store123'', pc_plan = ''starter'', pc_status = ''active'',
      planLimit = 100, usageThisMonth = 0\<rparr>]"

definition over_limit_A :: billing_customer where
  "over_limit_A =
     \<lparr>bc_email = ''a@example.com'', stripeCustomerId = ''cus_A'', subscriptionStatus = ''active'',
      currentMonth_tryons = 120, usage_limit = 100, overage_rate = 1 / 2, history = []\<rparr>"

definition over_limit_B :: billing_customer where
  "over_limit_B =
     \<lparr>bc_email = ''b@example.com'', stripeCustomerId = ''cus_B'', subscriptionStatus = ''active'',
      currentMonth_tryons = 150, usage_limit = 100, overage_rate = 1 / 2, history = []\<rparr>"

definition stripe_rejects_A :: "charge_request \<Rightarrow> bool" where
  "stripe_rejects_A req = (charge_customer req \<noteq> ''cus_A'')"

section \<open>Properties of the analytics tracker\<close>

subsection \<open>Funnel rates\<close>








lemma eventCounts_add_revenue [simp]: "eventCounts (add_revenue ev k r d) = eventCounts d"
  by (simp add: add_revenue_def Let_def)


subsection \<open>Balanced rollups\<close>

lemma set_update_subset: "set (AList.update k v al) \<subseteq> insert (k, v) (set al)"
  by (induction al) auto

lemma update_customer_balanced:
  "\<forall>key c. cs key = Some c \<longrightarrow> customer_balanced c \<Longrightarrow>
   update_customer cd now cs key = Some c \<Longrightarrow> customer_balanced c"
  by (auto simp: update_customer_def Let_def customer_balanced_def new_customer_stats_def
      split: if_splits option.splits)

lemma update_day_balanced:
  "day_balanced day0 \<Longrightarrow> is_Set (uniqueCustomers day0) \<Longrightarrow>
   update_day cd day0 = (day', threw) \<Longrightarrow>
   day_balanced day' \<and> is_Set (uniqueCustomers day') \<and> \<not> threw"
  by (auto simp: update_day_def Let_def day_balanced_def is_Set_def
      split: if_splits unique_customers.splits)

lemma new_daily_stats_ok: "day_balanced new_daily_stats \<and> is_Set (uniqueCustomers new_daily_stats)"
  by (simp add: new_daily_stats_def day_balanced_def is_Set_def)

lemma trackApiCall_consistent:
  assumes "rollups_consistent (data tr)"
  shows "rollups_consistent (data (fst (trackApiCall tr cd rid now)))"
proof -
  let ?d = "data tr"
  let ?k = "dateKey_of now"
  define day0 where "day0 = (case map_of (dailyStats ?d) ?k of None \<Rightarrow> new_daily_stats | Some day \<Rightarrow> day)"
  obtain day' threw where ud: "update_day cd day0 = (day', threw)" by (cases "update_day cd day0")
  have day0_ok: "day_balanced day0 \<and> is_Set (uniqueCustomers day0)"
  proof (cases "map_of (dailyStats ?d) ?k")
    case None
    then show ?thesis by (simp add: day0_def new_daily_stats_ok)
  next
    case (Some day)
    then have "(?k, day) \<in> set (dailyStats ?d)" by (rule map_of_SomeD)
    with assms Some show ?thesis by (auto simp: day0_def rollups_consistent_def)
  qed
  then have day'_ok: "day_balanced day' \<and> is_Set (uniqueCustomers day') \<and> \<not> threw"
    using update_day_balanced ud by blast
  have eq: "data (fst (trackApiCall tr cd rid now)) =
      ?d\<lparr>apiCalls := apiCalls ?d @ [make_api_call cd rid now],
          customers := update_customer cd now (customers ?d),
          dailyStats := AList.update ?k day' (dailyStats ?d)\<rparr>"
    using ud day'_ok by (simp add: trackApiCall_def Let_def day0_def saveData_def)
  have c: "\<forall>key c. update_customer cd now (customers ?d) key = Some c \<longrightarrow> customer_balanced c"
    using assms update_customer_balanced unfolding rollups_consistent_def by blast
  have d: "\<forall>(k, day) \<in> set (AList.update ?k day' (dailyStats ?d)).
      day_balanced day \<and> is_Set (uniqueCustomers day)"
    using assms day'_ok set_update_subset [of ?k day' "dailyStats ?d"]
    unfolding rollups_consistent_def by auto
  show ?thesis unfolding eq rollups_consistent_def using c d by simp
qed

lemma add_revenue_consistent:
  assumes "rollups_consistent d"
  shows "rollups_consistent (add_revenue ev k r d)"
proof -
  have c: "\<And>key c. customers (add_revenue ev k r d) key = Some c \<Longrightarrow> customer_balanced c"
    using assms
    by (auto simp: add_revenue_def Let_def rollups_consistent_def customer_balanced_def
        split: option.splits if_splits)
  have dd: "\<And>k' day. (k', day) \<in> set (dailyStats (add_revenue ev k r d)) \<Longrightarrow>
      day_balanced day \<and> is_Set (uniqueCustomers day)"
  proof -
    fix k' day assume a: "(k', day) \<in> set (dailyStats (add_revenue ev k r d))"
    show "day_balanced day \<and> is_Set (uniqueCustomers day)"
    proof (cases "map_of (dailyStats d) k")
      case None
      with a assms show ?thesis by (auto simp: add_revenue_def Let_def rollups_consistent_def)
    next
      case (Some day0)
      then have in0: "(k, day0) \<in> set (dailyStats d)" by (rule map_of_SomeD)
      from a Some have "(k', day) \<in> insert (k, day0\<lparr>day_revenue := day_revenue day0 + r\<rparr>) (set (dailyStats d))"
        using set_update_subset [of k "day0\<lparr>day_revenue := day_revenue day0 + r\<rparr>" "dailyStats d"]
        by (auto simp: add_revenue_def Let_def)
      with in0 assms show ?thesis
        by (auto simp: rollups_consistent_def day_balanced_def)
    qed
  qed
  show ?thesis unfolding rollups_consistent_def using c dd by blast
qed

lemma trackEvent_consistent:
  assumes "rollups_consistent (data tr)"
  shows "rollups_consistent (data (trackEvent tr e ev now))"
proof -
  have b: "rollups_consistent ((data tr)\<lparr>eventCounts := bump_event e (eventCounts (data tr))\<rparr>)"
    using assms by (simp add: rollups_consistent_def)
  show ?thesis
    using b add_revenue_consistent [OF b]
    by (simp add: trackEvent_def Let_def saveData_def split: option.splits)
qed

lemma apply_op_consistent:
  "rollups_consistent (data tr) \<Longrightarrow> rollups_consistent (data (apply_op tr op))"
  by (cases op) (simp_all add: trackApiCall_consistent trackEvent_consistent)

lemma run_ops_consistent:
  "rollups_consistent (data tr) \<Longrightarrow> rollups_consistent (data (run_ops tr ops))"
  unfolding run_ops_def
  by (induction ops arbitrary: tr) (simp_all add: apply_op_consistent)

lemma initial_consistent: "rollups_consistent (initial_data now)"
  by (simp add: rollups_consistent_def initial_data_def)

lemma rollups_consistent_balanced: "rollups_consistent d \<Longrightarrow> rollups_balanced d"
  unfolding rollups_consistent_def rollups_balanced_def customer_balanced_def day_balanced_def
  by auto

subsection \<open>Saving and loading\<close>

lemma restore_days_plain:
  "\<forall>(k, day) \<in> set days. uniqueCustomers day = PlainObject \<Longrightarrow>
   fst (restore_days days) = days"
  by (cases days) auto

lemma stringify_sets:
  "\<forall>(k, day) \<in> set (dailyStats d). is_Set (uniqueCustomers day) \<Longrightarrow>
   dailyStats (JSON_parse (JSON_stringify d))
     = map (\<lambda>(k, day). (k, day\<lparr>uniqueCustomers := PlainObject\<rparr>)) (dailyStats d)"
  by (auto simp: JSON_stringify_def json_of_day_def json_of_collection_def is_Set_def
      split: unique_customers.splits)

text \<open>
  Whenever every day holds a \<open>Set\<close>, saving and then restarting on the file leaves
  every day with a plain object in its place.
\<close>

lemma restart_after_save:
  assumes "\<forall>(k, day) \<in> set (dailyStats (data tr)). is_Set (uniqueCustomers day)"
  shows "dailyStats (data (restart (saveData tr) now))
     = map (\<lambda>(k, day). (k, day\<lparr>uniqueCustomers := PlainObject\<rparr>)) (dailyStats (data tr))"
proof -
  let ?days = "map (\<lambda>(k, day). (k, day\<lparr>uniqueCustomers := PlainObject\<rparr>)) (dailyStats (data tr))"
  have p: "dailyStats (JSON_parse (JSON_stringify (data tr))) = ?days"
    using assms by (rule stringify_sets)
  have "\<forall>(k, day) \<in> set ?days. uniqueCustomers day = PlainObject"
    by auto
  then have r: "fst (restore_days ?days) = ?days"
    by (rule restore_days_plain)
  obtain days' threw where rd: "restore_days ?days = (days', threw)"
    by (cases "restore_days ?days")
  with r have "days' = ?days" by simp
  with rd p show ?thesis
    by (simp add: restart_def new_tracker_def loadData_def saveData_def Let_def)
qed

section \<open>The claims on the analytics tracker\<close>

text \<open>
  C7 (the code departs from the claim). A tracker that has recorded one call of
  \<open>demo_customer\<close> holds, for that day, the \<open>Set\<close> with this one customer, and its file
  has been written. After a restart on that file the day's collection is a plain object
  without members, not a \<open>Set\<close> with the same ids: \<open>JSON.stringify\<close> wrote the
  \<open>Set\<close> as \<open>{}\<close>, and \<open>new Set({})\<close> throws inside \<open>loadData\<close>, whose
  \<open>catch\<close> keeps the parsed data. The next \<open>trackApiCall\<close> for that day throws.
\<close>

theorem C7_restart_loses_customers:
  "dataFile one_call_tracker \<noteq> None
   \<and> map (\<lambda>(k, day). (k, uniqueCustomers day)) (dailyStats (data one_call_tracker))
       = [(''2025-01-01'', CustomerSet [Some ''demo_customer''])]
   \<and> map (\<lambda>(k, day). (k, uniqueCustomers day))
         (dailyStats (data (restart one_call_tracker ''2025-01-01T11:00:00.000Z'')))
       = [(''2025-01-01'', PlainObject)]
   \<and> snd (trackApiCall (restart one_call_tracker ''2025-01-01T11:00:00.000Z'')
            (example_call (StatusText ''success'')) ''call_2'' ''2025-01-01T11:00:05.000Z'')
       = Thrown ''TypeError: uniqueCustomers.add is not a function''"
proof -
  have a: "dataFile one_call_tracker \<noteq> None"
    by code_simp
  have b: "map (\<lambda>(k, day). (k, uniqueCustomers day)) (dailyStats (data one_call_tracker))
       = [(''2025-01-01'', CustomerSet [Some ''demo_customer''])]"
    by code_simp
  have c: "map (\<lambda>(k, day). (k, uniqueCustomers day))
         (dailyStats (data (restart one_call_tracker ''2025-01-01T11:00:00.000Z'')))
       = [(''2025-01-01'', PlainObject)]"
    by code_simp
  have d: "snd (trackApiCall (restart one_call_tracker ''2025-01-01T11:00:00.000Z'')
            (example_call (StatusText ''success'')) ''call_2'' ''2025-01-01T11:00:05.000Z'')
       = Thrown ''TypeError: uniqueCustomers.add is not a function''"
    by code_simp
  show ?thesis using a b c d by blast
qed





text \<open>
  C10. From the state the constructor builds, and from a freshly reset state, every
  sequence of \<open>trackApiCall\<close> and \<open>trackEvent\<close> operations leaves every customer
  rollup and every daily aggregate with \<open>totalCalls = successfulCalls + failedCalls\<close>.
\<close>

theorem C10_rollups_balanced:
  "rollups_balanced (data (run_ops (new_tracker file now) ops)) \<and>
   rollups_balanced (data (run_ops (reset tr now') ops))"
proof -
  have "data (new_tracker file now) = initial_data now"
    by (simp add: new_tracker_def)
  moreover have "data (reset tr now') = initial_data now'"
    by (simp add: reset_def saveData_def)
  ultimately show ?thesis
    using run_ops_consistent initial_consistent rollups_consistent_balanced by simp
qed

text \<open>
  Witness of C10: three calls of the demo customer on two days, two of them successful,
  with events in between.
\<close>

theorem C10_rollups_balanced_witness:
  "map_option (\<lambda>c. (cust_totalCalls c, cust_successfulCalls c, cust_failedCalls c))
      (customers (data (run_ops (new_tracker None ''2025-01-01T09:00:00.000Z'') example_ops)) ''demo_customer'')
    = Some (3, 2, 1)
   \<and> map (\<lambda>(k, day). (k, day_totalCalls day, day_successfulCalls day, day_failedCalls day))
       (dailyStats (data (run_ops (reset (new_tracker None ''2025-01-01T09:00:00.000Z'') ''2025-01-01T09:30:00.000Z'') example_ops)))
       = [(''2025-01-01'', 1, 1, 0), (''2025-01-02'', 2, 1, 1)]
   \<and> rollups_balanced (data (run_ops (new_tracker None ''2025-01-01T09:00:00.000Z'') example_ops))
   \<and> rollups_balanced (data (run_ops (reset (new_tracker None ''2025-01-01T09:00:00.000Z'') ''2025-01-01T09:30:00.000Z'') example_ops))"
proof -
  have a: "map_option (\<lambda>c. (cust_totalCalls c, cust_successfulCalls c, cust_failedCalls c))
      (customers (data (run_ops (new_tracker None ''2025-01-01T09:00:00.000Z'') example_ops)) ''demo_customer'')
    = Some (3, 2, 1)"
    by code_simp
  have b: "map (\<lambda>(k, day). (k, day_totalCalls day, day_successfulCalls day, day_failedCalls day))
       (dailyStats (data (run_ops (reset (new_tracker None ''2025-01-01T09:00:00.000Z'') ''2025-01-01T09:30:00.000Z'') example_ops)))
       = [(''2025-01-01'', 1, 1, 0), (''2025-01-02'', 2, 1, 1)]"
    by code_simp
  show ?thesis
    using a b
      C10_rollups_balanced [of None "''2025-01-01T09:00:00.000Z''" example_ops
              "new_tracker None ''2025-01-01T09:00:00.000Z''" "''2025-01-01T09:30:00.000Z''"]
    by simp
qed

section \<open>Properties of the try-on handler\<close>

lemma axios_post_fails:
  "upstream_fails out \<Longrightarrow> \<exists>r m. axios_post out = Rejected r m"
  by (auto simp: upstream_fails_def axios_post_def split: upstream_outcome.splits)

lemma axios_post_ok:
  "\<not> upstream_fails out \<Longrightarrow> \<exists>st d. axios_post out = Resolved st d \<and> st < 400"
  by (auto simp: upstream_fails_def axios_post_def split: upstream_outcome.splits)

lemma tryon_attempt_fail:
  assumes "\<not> request_ready cfg b \<or> upstream_fails (up (make_payload b))"
  shows "\<exists>srv' msg sent. tryon_attempt cfg up clk srv cust key b = (srv', Thrown msg, sent)
           \<and> demoKeys srv' = demoKeys srv"
proof (cases "request_ready cfg b")
  case False
  then show ?thesis
    by (auto simp: tryon_attempt_def request_ready_def Let_def split: option.splits)
next
  case True
  with assms obtain r m where "axios_post (up (make_payload b)) = Rejected r m"
    using axios_post_fails by blast
  with True show ?thesis
    by (simp add: tryon_attempt_def request_ready_def Let_def)
qed

lemma tryon_attempt_ok:
  assumes "request_ready cfg b" and "\<not> upstream_fails (up (make_payload b))"
  shows "\<exists>srv' comp. tryon_attempt cfg up clk srv cust key b = (srv', comp, [make_payload b])
           \<and> demoKeys srv' = increment_usage (demoKeys srv) key
           \<and> (\<forall>r. comp = Returned r \<longrightarrow> http_status r = 200)"
proof -
  obtain st d where "axios_post (up (make_payload b)) = Resolved st d" and "st < 400"
    using assms(2) axios_post_ok by blast
  with assms(1) show ?thesis
    by (auto simp: tryon_attempt_def request_ready_def Let_def split: prod.splits completion.splits)
qed

lemma tryon_attempt_sent:
  "snd (snd (tryon_attempt cfg up clk srv cust key b))
     = (if request_ready cfg b then [make_payload b] else [])"
  by (auto simp: tryon_attempt_def request_ready_def Let_def
      split: option.splits axios_result.splits prod.splits completion.splits)

lemma tryon_attempt_returned:
  "tryon_attempt cfg up clk srv cust key b = (srv', Returned r, sent) \<Longrightarrow>
   body_used (body r) = key_field (demoKeys srv') key used \<and>
   body_remaining (body r) = key_field (demoKeys srv') key (\<lambda>c. limit c - used c)"
  by (auto simp: tryon_attempt_def Let_def
      split: if_splits option.splits axios_result.splits prod.splits completion.splits)

lemma tryon_failure_props:
  "tryon_failure clk srv cust key msg = (srv', r) \<Longrightarrow>
   demoKeys srv' = demoKeys srv \<and> http_status r = 500 \<and>
   body_used (body r) = key_field (demoKeys srv') key used \<and>
   body_remaining (body r) = key_field (demoKeys srv') key (\<lambda>c. limit c - used c)"
  by (auto simp: tryon_failure_def Let_def)

lemma doTryOn_fail:
  assumes "\<not> request_ready cfg b \<or> upstream_fails (up (make_payload b))"
    and "doTryOn cfg up clk srv cust key b = (srv', r, sent)"
  shows "demoKeys srv' = demoKeys srv \<and> http_status r = 500"
proof -
  let ?srv0 = "srv\<lparr>analytics := trackEvent (analytics srv) ''tryon_initiated''
                    \<lparr>ev_revenue = None, ev_customerId = customerId_or_null cust\<rparr> (clock_now clk)\<rparr>"
  obtain srv1 msg sent1 where a: "tryon_attempt cfg up clk ?srv0 cust key b = (srv1, Thrown msg, sent1)"
    and k: "demoKeys srv1 = demoKeys ?srv0"
    using tryon_attempt_fail [where cfg = cfg and b = b and up = up and clk = clk
        and srv = ?srv0 and cust = cust and key = key] assms(1) by blast
  obtain srv2 r2 where f: "tryon_failure clk srv1 cust key msg = (srv2, r2)"
    by (cases "tryon_failure clk srv1 cust key msg")
  from assms(2) a f have "srv' = srv2" "r = r2"
    by (simp_all add: doTryOn_def Let_def)
  with tryon_failure_props [OF f] k show ?thesis by simp
qed

lemma doTryOn_ok:
  assumes "request_ready cfg b" and "\<not> upstream_fails (up (make_payload b))"
    and "doTryOn cfg up clk srv cust key b = (srv', r, sent)"
  shows "demoKeys srv' = increment_usage (demoKeys srv) key \<and> sent = [make_payload b]"
proof -
  let ?srv0 = "srv\<lparr>analytics := trackEvent (analytics srv) ''tryon_initiated''
                    \<lparr>ev_revenue = None, ev_customerId = customerId_or_null cust\<rparr> (clock_now clk)\<rparr>"
  obtain srv1 comp where a: "tryon_attempt cfg up clk ?srv0 cust key b = (srv1, comp, [make_payload b])"
    and k: "demoKeys srv1 = increment_usage (demoKeys ?srv0) key"
    using tryon_attempt_ok [where cfg = cfg and b = b and up = up and clk = clk
        and srv = ?srv0 and cust = cust and key = key] assms(1,2) by blast
  show ?thesis
  proof (cases comp)
    case (Returned r1)
    with assms(3) a k show ?thesis by (simp add: doTryOn_def Let_def)
  next
    case (Thrown msg)
    obtain srv2 r2 where f: "tryon_failure clk srv1 cust key msg = (srv2, r2)"
      by (cases "tryon_failure clk srv1 cust key msg")
    from assms(3) a f Thrown have "srv' = srv2" "sent = [make_payload b]"
      by (simp_all add: doTryOn_def Let_def)
    with tryon_failure_props [OF f] k show ?thesis by simp
  qed
qed

lemma doTryOn_sent:
  "snd (snd (doTryOn cfg up clk srv cust key b))
     = (if request_ready cfg b then [make_payload b] else [])"
proof -
  let ?srv0 = "srv\<lparr>analytics := trackEvent (analytics srv) ''tryon_initiated''
                    \<lparr>ev_revenue = None, ev_customerId = customerId_or_null cust\<rparr> (clock_now clk)\<rparr>"
  obtain srv1 comp sent1 where a: "tryon_attempt cfg up clk ?srv0 cust key b = (srv1, comp, sent1)"
    by (cases "tryon_attempt cfg up clk ?srv0 cust key b") auto
  have s: "sent1 = (if request_ready cfg b then [make_payload b] else [])"
    using tryon_attempt_sent [of cfg up clk ?srv0 cust key b] a by simp
  show ?thesis
    using a s by (cases comp) (simp_all add: doTryOn_def Let_def split: prod.splits)
qed

lemma doTryOn_body:
  assumes "doTryOn cfg up clk srv cust key b = (srv', r, sent)"
  shows "body_used (body r) = key_field (demoKeys srv') key used \<and>
         body_remaining (body r) = key_field (demoKeys srv') key (\<lambda>c. limit c - used c)"
proof -
  let ?srv0 = "srv\<lparr>analytics := trackEvent (analytics srv) ''tryon_initiated''
                    \<lparr>ev_revenue = None, ev_customerId = customerId_or_null cust\<rparr> (clock_now clk)\<rparr>"
  obtain srv1 comp sent1 where a: "tryon_attempt cfg up clk ?srv0 cust key b = (srv1, comp, sent1)"
    by (cases "tryon_attempt cfg up clk ?srv0 cust key b") auto
  show ?thesis
  proof (cases comp)
    case (Returned r1)
    with assms a have "srv' = srv1" "r = r1" by (simp_all add: doTryOn_def Let_def)
    with tryon_attempt_returned a Returned show ?thesis by blast
  next
    case (Thrown msg)
    obtain srv2 r2 where f: "tryon_failure clk srv1 cust key msg = (srv2, r2)"
      by (cases "tryon_failure clk srv1 cust key msg")
    from assms a f Thrown have "srv' = srv2" "r = r2"
      by (simp_all add: doTryOn_def Let_def)
    with tryon_failure_props [OF f] show ?thesis by simp
  qed
qed

lemma prefix_nonempty: "prefix ''vmize_pk_'' k \<Longrightarrow> \<not> falsy (Some k)"
  by (auto simp: falsy_def)

lemma verify_known:
  assumes "prefix ''vmize_pk_'' k" and "dk k = Some c"
  shows "verifyVmizeKey dk (Some k) =
     (if used c \<ge> limit c
      then Inl \<lparr>http_status = 429, body = LimitBody ''Usage limit exceeded'' (limit c) (used c)\<rparr>
      else Inr (k, c))"
  using assms prefix_nonempty [OF assms(1)] by (simp add: verifyVmizeKey_def Let_def)

lemma increment_usage_known:
  "\<not> falsy (Some k) \<Longrightarrow> dk k = Some c \<Longrightarrow>
   increment_usage dk (Some k) = dk(k \<mapsto> c\<lparr>used := used c + 1\<rparr>)"
  by (simp add: increment_usage_def)

lemma verify_bad_key:
  "falsy hdr \<or> \<not> prefix ''vmize_pk_'' (the hdr) \<Longrightarrow>
   \<exists>r. verifyVmizeKey dk hdr = Inl r \<and> http_status r = 401"
  by (auto simp: verifyVmizeKey_def Let_def)

lemma verify_proxy_bad_key:
  "falsy hdr \<or> (\<not> prefix ''vmize_pk_live_'' (the hdr) \<and> \<not> prefix ''vmize_pk_test_'' (the hdr)) \<Longrightarrow>
   \<exists>r. verifyCustomerApiKey store hdr = Inl r \<and> proxy_status r = 401"
  by (auto simp: verifyCustomerApiKey_def Let_def)




lemma doTryOn_missing_image:
  assumes "falsy (model_image b) \<or> falsy (garment_image b)"
  shows "http_status (fst (snd (doTryOn cfg up clk srv cust key b))) = 500
         \<and> snd (snd (doTryOn cfg up clk srv cust key b)) = []"
proof -
  obtain srv' r sent where d: "doTryOn cfg up clk srv cust key b = (srv', r, sent)"
    by (cases "doTryOn cfg up clk srv cust key b") auto
  have nr: "\<not> request_ready cfg b" using assms by (auto simp: request_ready_def)
  have "http_status r = 500"
    using doTryOn_fail [where cfg = cfg and b = b and up = up, OF _ d] nr by blast
  moreover have "sent = []"
    using doTryOn_sent [of cfg up clk srv cust key b] d nr by simp
  ultimately show ?thesis using d by simp
qed

lemma proxy_tryon_missing_image:
  "verifyCustomerApiKey store hdr = Inr c \<Longrightarrow> falsy m \<or> falsy g \<Longrightarrow>
   proxy_tryon store out hdr m g =
     (\<lparr>proxy_status = 400,
       proxy_body = MessageBody ''Bad Request'' ''model_image and garment_image are required''\<rparr>,
      False)"
  by (auto simp: proxy_tryon_def)

section \<open>The claims on admission and the try-on handler\<close>

text \<open>
  C1. For a request whose key has the required prefix and belongs to a customer, the key
  check rejects exactly when \<open>used + 1 > limit\<close>, and the rejection is the 429 reply,
  which leaves the server as it was and sends nothing upstream. With \<open>limit = 100\<close> and
  \<open>used = 99\<close>, a submission that gets upstream and succeeds there is admitted, the
  stored usage becomes 100, the reply reports \<open>used = 100\<close> and \<open>remaining = 0\<close>, and
  any further submission with this key is rejected with 429 without a change of the
  counter.
\<close>

theorem C1_quota_admission:
  assumes "prefix ''vmize_pk_'' k" and "demoKeys srv k = Some c"
  shows "((\<exists>r. verifyVmizeKey (demoKeys srv) (Some k) = Inl r) \<longleftrightarrow> used c + 1 > limit c)
    \<and> (used c + 1 > limit c \<longrightarrow>
         route_tryon cfg up clk srv (Some k) b =
           (srv, \<lparr>http_status = 429,
                  body = LimitBody ''Usage limit exceeded'' (limit c) (used c)\<rparr>, []))
    \<and> (limit c = 100 \<and> used c = 99 \<and> request_ready cfg b \<and> \<not> upstream_fails (up (make_payload b)) \<longrightarrow>
         (let (srv1, resp1, sent1) = route_tryon cfg up clk srv (Some k) b
          in sent1 = [make_payload b]
           \<and> demoKeys srv1 = (demoKeys srv)(k \<mapsto> c\<lparr>used := 100\<rparr>)
           \<and> body_used (body resp1) = Some 100
           \<and> body_remaining (body resp1) = Some 0
           \<and> route_tryon cfg' up' clk' srv1 (Some k) b' =
               (srv1, \<lparr>http_status = 429, body = LimitBody ''Usage limit exceeded'' 100 100\<rparr>, [])))"
proof -
  note v = verify_known [of k "demoKeys srv" c, OF assms]
  have nf: "\<not> falsy (Some k)" using assms(1) by (rule prefix_nonempty)
  have p1: "(\<exists>r. verifyVmizeKey (demoKeys srv) (Some k) = Inl r) \<longleftrightarrow> used c + 1 > limit c"
    by (auto simp: v)
  have p2: "used c + 1 > limit c \<longrightarrow>
         route_tryon cfg up clk srv (Some k) b =
           (srv, \<lparr>http_status = 429,
                  body = LimitBody ''Usage limit exceeded'' (limit c) (used c)\<rparr>, [])"
    by (simp add: route_tryon_def v)
  have p3: "let (srv1, resp1, sent1) = route_tryon cfg up clk srv (Some k) b
          in sent1 = [make_payload b]
           \<and> demoKeys srv1 = (demoKeys srv)(k \<mapsto> c\<lparr>used := 100\<rparr>)
           \<and> body_used (body resp1) = Some 100
           \<and> body_remaining (body resp1) = Some 0
           \<and> route_tryon cfg' up' clk' srv1 (Some k) b' =
               (srv1, \<lparr>http_status = 429, body = LimitBody ''Usage limit exceeded'' 100 100\<rparr>, [])"
    if h: "limit c = 100" "used c = 99" "request_ready cfg b" "\<not> upstream_fails (up (make_payload b))"
  proof -
    obtain srv1 resp1 sent1 where r: "route_tryon cfg up clk srv (Some k) b = (srv1, resp1, sent1)"
      by (cases "route_tryon cfg up clk srv (Some k) b") auto
    then have d: "doTryOn cfg up clk srv (Some c) (Some k) b = (srv1, resp1, sent1)"
      using h by (simp add: route_tryon_def v)
    have ok: "demoKeys srv1 = increment_usage (demoKeys srv) (Some k) \<and> sent1 = [make_payload b]"
      using doTryOn_ok [where cfg = cfg and b = b and up = up, OF h(3) h(4) d] .
    then have dk1: "demoKeys srv1 = (demoKeys srv)(k \<mapsto> c\<lparr>used := 100\<rparr>)"
      using increment_usage_known [of k "demoKeys srv" c, OF nf assms(2)] h by simp
    have bd: "body_used (body resp1) = key_field (demoKeys srv1) (Some k) used \<and>
         body_remaining (body resp1) = key_field (demoKeys srv1) (Some k) (\<lambda>c. limit c - used c)"
      using doTryOn_body [OF d] .
    have kf: "key_field (demoKeys srv1) (Some k) used = Some 100"
         "key_field (demoKeys srv1) (Some k) (\<lambda>c. limit c - used c) = Some 0"
      using nf h by (simp_all add: key_field_def dk1)
    have again: "route_tryon cfg' up' clk' srv1 (Some k) b' =
               (srv1, \<lparr>http_status = 429, body = LimitBody ''Usage limit exceeded'' 100 100\<rparr>, [])"
      using h verify_known [of k "demoKeys srv1" "c\<lparr>used := 100\<rparr>", OF assms(1)]
      by (simp add: route_tryon_def dk1)
    show ?thesis using r ok dk1 bd kf again by simp
  qed
  show ?thesis using p1 p2 p3 by blast
qed

text \<open>
  Witness of C1: the demo key, with the demo customer at \<open>limit = 100\<close>, \<open>used = 99\<close>.
\<close>

theorem C1_quota_admission_witness:
  "prefix ''vmize_pk_'' demo_key
   \<and> demoKeys (server_at 100 99) demo_key = Some (demo_at 100 99)
   \<and> verifyVmizeKey (demoKeys (server_at 100 99)) (Some demo_key) = Inr (demo_key, demo_at 100 99)
   \<and> (let (srv1, resp1, sent1) =
            route_tryon example_config upstream_accepts (example_clock ''call_1'') (server_at 100 99)
              (Some demo_key) example_body
       in sent1 = [make_payload example_body]
        \<and> demoKeys srv1 = (demoKeys (server_at 100 99))(demo_key \<mapsto> (demo_at 100 99)\<lparr>used := 100\<rparr>)
        \<and> body_used (body resp1) = Some 100
        \<and> body_remaining (body resp1) = Some 0
        \<and> route_tryon example_config upstream_accepts (example_clock ''call_2'') srv1
              (Some demo_key) example_body =
            (srv1, \<lparr>http_status = 429, body = LimitBody ''Usage limit exceeded'' 100 100\<rparr>, []))"
proof -
  have h1: "prefix ''vmize_pk_'' demo_key"
    by (simp add: demo_key_def)
  have h2: "demoKeys (server_at 100 99) demo_key = Some (demo_at 100 99)"
    by (simp add: server_at_def)
  have h3: "limit (demo_at 100 99) = 100 \<and> used (demo_at 100 99) = 99
      \<and> request_ready example_config example_body
      \<and> \<not> upstream_fails (upstream_accepts (make_payload example_body))"
    by (simp add: demo_at_def request_ready_def example_config_def example_body_def falsy_def
        upstream_fails_def upstream_accepts_def)
  have h4: "verifyVmizeKey (demoKeys (server_at 100 99)) (Some demo_key) = Inr (demo_key, demo_at 100 99)"
    using h1 h2 by (simp add: verify_known demo_at_def)
  note t = C1_quota_admission [of demo_key "server_at 100 99" "demo_at 100 99", OF h1 h2,
      of example_config upstream_accepts "example_clock ''call_1''" example_body
         example_config upstream_accepts "example_clock ''call_2''" example_body]
  from t h3 have c: "let (srv1, resp1, sent1) =
            route_tryon example_config upstream_accepts (example_clock ''call_1'') (server_at 100 99)
              (Some demo_key) example_body
       in sent1 = [make_payload example_body]
        \<and> demoKeys srv1 = (demoKeys (server_at 100 99))(demo_key \<mapsto> (demo_at 100 99)\<lparr>used := 100\<rparr>)
        \<and> body_used (body resp1) = Some 100
        \<and> body_remaining (body resp1) = Some 0
        \<and> route_tryon example_config upstream_accepts (example_clock ''call_2'') srv1
              (Some demo_key) example_body =
            (srv1, \<lparr>http_status = 429, body = LimitBody ''Usage limit exceeded'' 100 100\<rparr>, [])"
    by blast
  show ?thesis using h1 h2 h4 c by blast
qed

text \<open>
  C3. Whenever the upstream request fails (timeout, network failure, or a reply outside
  200 to 299), \<open>doTryOn\<close> answers 500 and the stored usage counters are what they were
  before the call. In every run of \<open>doTryOn\<close> the counters are either unchanged, or the
  upstream call was made and succeeded and the counters are those after \<open>used++\<close> on
  the caller's key, which adds exactly one to that customer's \<open>used\<close>.
\<close>

theorem C3_failure_keeps_usage:
  "(let (srv', resp, sent) = doTryOn cfg up clk srv cust key b
    in (upstream_fails (up (make_payload b)) \<longrightarrow>
          http_status resp = 500 \<and> demoKeys srv' = demoKeys srv)
     \<and> (demoKeys srv' = demoKeys srv
        \<or> (\<not> upstream_fails (up (make_payload b)) \<and> sent = [make_payload b]
           \<and> demoKeys srv' = increment_usage (demoKeys srv) key)))
   \<and> (k \<noteq> [] \<and> dk k = Some c \<longrightarrow>
        increment_usage dk (Some k) = dk(k \<mapsto> c\<lparr>used := used c + 1\<rparr>))"
proof -
  obtain srv' resp sent where d: "doTryOn cfg up clk srv cust key b = (srv', resp, sent)"
    by (cases "doTryOn cfg up clk srv cust key b") auto
  have a: "upstream_fails (up (make_payload b)) \<longrightarrow>
          http_status resp = 500 \<and> demoKeys srv' = demoKeys srv"
    using doTryOn_fail [where cfg = cfg and b = b and up = up, OF _ d] by blast
  have b: "demoKeys srv' = demoKeys srv
        \<or> (\<not> upstream_fails (up (make_payload b)) \<and> sent = [make_payload b]
           \<and> demoKeys srv' = increment_usage (demoKeys srv) key)"
  proof (cases "request_ready cfg b \<and> \<not> upstream_fails (up (make_payload b))")
    case True
    then show ?thesis
      using doTryOn_ok [where cfg = cfg and b = b and up = up, OF _ _ d] by blast
  next
    case False
    then show ?thesis
      using doTryOn_fail [where cfg = cfg and b = b and up = up, OF _ d] by blast
  qed
  have c: "k \<noteq> [] \<and> dk k = Some c \<longrightarrow>
        increment_usage dk (Some k) = dk(k \<mapsto> c\<lparr>used := used c + 1\<rparr>)"
    by (simp add: increment_usage_def falsy_def)
  show ?thesis using d a b c by simp
qed


text \<open>Witness of C3: the upstream call times out.\<close>

theorem C3_failure_keeps_usage_witness:
  "upstream_fails (upstream_times_out (make_payload example_body))
   \<and> http_status (fst (snd (doTryOn example_config upstream_times_out (example_clock ''call_1'')
         server0 (Some (demo_at 500 0)) (Some demo_key) example_body))) = 500
   \<and> demoKeys (fst (doTryOn example_config upstream_times_out (example_clock ''call_1'')
         server0 (Some (demo_at 500 0)) (Some demo_key) example_body)) = demoKeys server0
   \<and> increment_usage demoKeys0 (Some demo_key) = demoKeys0(demo_key \<mapsto> (demo_at 500 0)\<lparr>used := 1\<rparr>)"
proof -
  have h: "upstream_fails (upstream_times_out (make_payload example_body))"
    by (simp add: upstream_fails_def upstream_times_out_def)
  have k: "demo_key \<noteq> [] \<and> demoKeys0 demo_key = Some (demo_at 500 0)"
    by (simp add: demo_key_def demoKeys0_def demo_at_def)
  note t = C3_failure_keeps_usage [of example_config upstream_times_out "example_clock ''call_1''" server0
      "Some (demo_at 500 0)" "Some demo_key" example_body demo_key demoKeys0 "demo_at 500 0"]
  show ?thesis
    using t h k by (simp add: case_prod_beta demo_at_def)
qed

text \<open>
  C4 (the code departs from the claim). On the server with analytics, a try-on submission
  with a valid key and no \<open>model_image\<close> is answered with 500, not 400: the check throws
  inside the \<open>try\<close> of \<open>doTryOn\<close> and the \<open>catch\<close> answers 500. Nothing is sent
  upstream. The plain proxy answers the same submission with 400.
\<close>

theorem C4_missing_image_is_500:
  "(let (srv', resp, sent) =
        route_tryon example_config upstream_accepts (example_clock ''call_1'') server0
          (Some demo_key) (example_body\<lparr>model_image := None\<rparr>)
    in resp = \<lparr>http_status = 500,
               body = TryOnErrorBody ''Both model_image and garment_image are required''
                        (Some 0) (Some 500)\<rparr>
     \<and> sent = [])
   \<and> proxy_tryon example_store (upstream_accepts (make_payload example_body))
        (Some ''vmize_pk_live_store123_1735725600000'') None (garment_image example_body)
      = (\<lparr>proxy_status = 400,
          proxy_body = MessageBody ''Bad Request'' ''model_image and garment_image are required''\<rparr>,
         False)"
proof -
  have a: "fst (snd (route_tryon example_config upstream_accepts (example_clock ''call_1'') server0
          (Some demo_key) (example_body\<lparr>model_image := None\<rparr>)))
      = \<lparr>http_status = 500,
               body = TryOnErrorBody ''Both model_image and garment_image are required''
                        (Some 0) (Some 500)\<rparr>"
    by code_simp
  have b: "snd (snd (route_tryon example_config upstream_accepts (example_clock ''call_1'') server0
          (Some demo_key) (example_body\<lparr>model_image := None\<rparr>))) = []"
    by code_simp
  have c: "proxy_tryon example_store (upstream_accepts (make_payload example_body))
        (Some ''vmize_pk_live_store123_1735725600000'') None (garment_image example_body)
      = (\<lparr>proxy_status = 400,
          proxy_body = MessageBody ''Bad Request'' ''model_image and garment_image are required''\<rparr>,
         False)"
    by code_simp
  show ?thesis using a b c by (simp add: case_prod_beta)
qed

text \<open>
  C5 as stated fails: \<open>POST /api/tryon/generate\<close> without the key header substitutes the
  demo key; the request is processed (a payload goes upstream, the demo customer's usage
  becomes 1) and answered with 200.
\<close>

theorem C5_generate_without_key:
  "http_status (fst (snd (route_tryon_generate example_config upstream_accepts
       (example_clock ''call_1'') server0 None example_body))) = 200
   \<and> snd (snd (route_tryon_generate example_config upstream_accepts
       (example_clock ''call_1'') server0 None example_body)) = [make_payload example_body]
   \<and> map_option used (demoKeys (fst (route_tryon_generate example_config upstream_accepts
       (example_clock ''call_1'') server0 None example_body)) demo_key) = Some 1"
proof -
  have a: "http_status (fst (snd (route_tryon_generate example_config upstream_accepts
       (example_clock ''call_1'') server0 None example_body))) = 200"
    by code_simp
  have b: "snd (snd (route_tryon_generate example_config upstream_accepts
       (example_clock ''call_1'') server0 None example_body)) = [make_payload example_body]"
    by code_simp
  have c: "map_option used (demoKeys (fst (route_tryon_generate example_config upstream_accepts
       (example_clock ''call_1'') server0 None example_body)) demo_key) = Some 1"
    by code_simp
  show ?thesis using a b c by blast
qed

text \<open>
  C5 (amended). On \<open>POST /api/tryon\<close> and \<open>GET /api/usage\<close> a missing header, or one
  without the prefix \<open>vmize_pk_\<close>, is answered with 401, the server state is unchanged
  and nothing is sent upstream. On \<open>POST /api/tryon/generate\<close> the same holds for a
  header that is present without the prefix; a missing header is replaced by the demo key
  and the request runs as \<open>POST /api/tryon\<close> with that key. On the plain proxy a missing
  header, or one with neither prefix \<open>vmize_pk_live_\<close> nor \<open>vmize_pk_test_\<close>, is
  answered with 401 on both routes, and nothing is sent upstream.
\<close>

theorem C5_key_checks:
  "(falsy hdr \<or> \<not> prefix ''vmize_pk_'' (the hdr) \<longrightarrow>
      (\<exists>r. route_tryon cfg up clk srv hdr b = (srv, r, []) \<and> http_status r = 401)
      \<and> http_status (route_usage srv hdr) = 401)
   \<and> (\<not> falsy hdr \<and> \<not> prefix ''vmize_pk_'' (the hdr) \<longrightarrow>
      (\<exists>r. route_tryon_generate cfg up clk srv hdr b = (srv, r, []) \<and> http_status r = 401))
   \<and> (falsy hdr \<longrightarrow>
      route_tryon_generate cfg up clk srv hdr b = route_tryon cfg up clk srv (Some demo_key) b)
   \<and> (falsy hdr \<or> (\<not> prefix ''vmize_pk_live_'' (the hdr) \<and> \<not> prefix ''vmize_pk_test_'' (the hdr)) \<longrightarrow>
      proxy_status (fst (proxy_tryon store out hdr m g)) = 401
      \<and> \<not> snd (proxy_tryon store out hdr m g)
      \<and> proxy_status (proxy_usage store hdr) = 401)"
proof -
  have a: "(\<exists>r. route_tryon cfg up clk srv hdr b = (srv, r, []) \<and> http_status r = 401)
      \<and> http_status (route_usage srv hdr) = 401"
    if "falsy hdr \<or> \<not> prefix ''vmize_pk_'' (the hdr)"
    using verify_bad_key [OF that, of "demoKeys srv"]
    by (auto simp: route_tryon_def route_usage_def)
  have b: "\<exists>r. route_tryon_generate cfg up clk srv hdr b = (srv, r, []) \<and> http_status r = 401"
    if "\<not> falsy hdr \<and> \<not> prefix ''vmize_pk_'' (the hdr)"
    using that verify_bad_key [of hdr "demoKeys srv"]
    by (auto simp: route_tryon_generate_def)
  have c: "route_tryon_generate cfg up clk srv hdr b = route_tryon cfg up clk srv (Some demo_key) b"
    if "falsy hdr"
    using that by (simp add: route_tryon_generate_def route_tryon_def)
  have d: "proxy_status (fst (proxy_tryon store out hdr m g)) = 401
      \<and> \<not> snd (proxy_tryon store out hdr m g)
      \<and> proxy_status (proxy_usage store hdr) = 401"
    if "falsy hdr \<or> (\<not> prefix ''vmize_pk_live_'' (the hdr) \<and> \<not> prefix ''vmize_pk_test_'' (the hdr))"
    using verify_proxy_bad_key [OF that, of store]
    by (auto simp: proxy_tryon_def proxy_usage_def)
  show ?thesis using a b c d by blast
qed

text \<open>Witness of C5: the key \<open>bad_format_key\<close>, and a missing header.\<close>

theorem C5_key_checks_witness:
  "\<not> falsy (Some ''bad_format_key'') \<and> \<not> prefix ''vmize_pk_'' ''bad_format_key''
   \<and> (\<exists>r. route_tryon example_config upstream_accepts (example_clock ''call_1'') server0
            (Some ''bad_format_key'') example_body = (server0, r, []) \<and> http_status r = 401)
   \<and> http_status (route_usage server0 (Some ''bad_format_key'')) = 401
   \<and> (\<exists>r. route_tryon_generate example_config upstream_accepts (example_clock ''call_1'') server0
            (Some ''bad_format_key'') example_body = (server0, r, []) \<and> http_status r = 401)
   \<and> http_status (route_usage server0 None) = 401
   \<and> route_tryon_generate example_config upstream_accepts (example_clock ''call_1'') server0
        None example_body
      = route_tryon example_config upstream_accepts (example_clock ''call_1'') server0
        (Some demo_key) example_body
   \<and> proxy_status (proxy_usage Map.empty (Some ''bad_format_key'')) = 401"
proof -
  have h: "\<not> falsy (Some ''bad_format_key'') \<and> \<not> prefix ''vmize_pk_'' ''bad_format_key''
     \<and> \<not> prefix ''vmize_pk_live_'' ''bad_format_key'' \<and> \<not> prefix ''vmize_pk_test_'' ''bad_format_key''"
    by (simp add: falsy_def)
  have n: "falsy None" by (simp add: falsy_def)
  note t1 = C5_key_checks [of "Some ''bad_format_key''" example_config upstream_accepts
      "example_clock ''call_1''" server0 example_body Map.empty Timeout None None]
  note t2 = C5_key_checks [of None example_config upstream_accepts
      "example_clock ''call_1''" server0 example_body Map.empty Timeout None None]
  show ?thesis using h n t1 t2 by simp
qed




section \<open>The claim on the monthly billing job\<close>

lemma billing_loop_run:
  "billing_loop stripe month cs =
     (map (resetMonthlyUsage month) (take (processed stripe cs) cs) @ drop (processed stripe cs) cs,
      map overage_charge
        (filter (\<lambda>c. snd (calculateOverage c) > 0) (take (Suc (processed stripe cs)) cs)),
      processed stripe cs = length cs)"
proof (induction cs)
  case Nil
  then show ?case by (simp add: processed_def)
next
  case (Cons c cs)
  show ?case
  proof (cases "charge_throws stripe c")
    case True
    then show ?thesis by (simp add: processed_def charge_throws_def)
  next
    case False
    then have p: "processed stripe (c # cs) = Suc (processed stripe cs)"
      by (simp add: processed_def)
    from False Cons show ?thesis
      unfolding p by (auto simp: charge_throws_def)
  qed
qed

text \<open>
  C2 as stated fails: with two active customers over their limit and a collaborator that
  fails for the first of them, the run ends at the failing charge (10.00 for 20 units at
  0.50). Neither customer is reset, and the second one, whose charge would go through, is
  not charged.
\<close>

theorem C2_failure_ends_run:
  "monthly_billing_job stripe_rejects_A ''2025-01'' [over_limit_A, over_limit_B]
     = ([over_limit_A, over_limit_B], [overage_charge over_limit_A], False)
   \<and> charge_amount (overage_charge over_limit_A) = 10
   \<and> stripe_rejects_A (overage_charge over_limit_B)
   \<and> map currentMonth_tryons
        (fst (monthly_billing_job stripe_rejects_A ''2025-01'' [over_limit_A, over_limit_B]))
      = [120, 150]"
proof -
  have a: "charge_amount (overage_charge over_limit_A) = 10"
    by (simp add: overage_charge_def calculateOverage_def over_limit_A_def)
  have b: "stripe_rejects_A (overage_charge over_limit_B)"
    by (simp add: stripe_rejects_A_def overage_charge_def over_limit_B_def)
  have c: "\<not> stripe_rejects_A (overage_charge over_limit_A)"
    by (simp add: stripe_rejects_A_def overage_charge_def over_limit_A_def)
  have d: "snd (calculateOverage over_limit_A) > 0"
    by (simp add: calculateOverage_def over_limit_A_def)
  have f: "filter (\<lambda>c. subscriptionStatus c = ''active'') [over_limit_A, over_limit_B]
      = [over_limit_A, over_limit_B]"
    by (simp add: over_limit_A_def over_limit_B_def)
  have e: "monthly_billing_job stripe_rejects_A ''2025-01'' [over_limit_A, over_limit_B]
     = ([over_limit_A, over_limit_B], [overage_charge over_limit_A], False)"
    unfolding monthly_billing_job_def f using c d by simp
  have g: "map currentMonth_tryons [over_limit_A, over_limit_B] = [120, 150]"
    by (simp add: over_limit_A_def over_limit_B_def)
  show ?thesis using a b e g by simp
qed

text \<open>
  C2 (amended). A run of the monthly billing job goes through the active customers in
  order, up to the first one whose charge attempt throws. Every customer before that one
  has been charged if its overage cost is positive, and then reset: its current-month
  usage is 0 and the prior value is archived in its history. The customer whose charge
  throws and all customers after it are left as they were, and no charge is attempted
  for the later ones. The run reaches its end, with every active customer reset, exactly
  when no charge attempt throws.
\<close>

theorem C2_billing_run:
  "(let active = filter (\<lambda>c. subscriptionStatus c = ''active'') directory;
        n = processed stripe active
    in monthly_billing_job stripe month directory =
         (map (resetMonthlyUsage month) (take n active) @ drop n active,
          map overage_charge (filter (\<lambda>c. snd (calculateOverage c) > 0) (take (Suc n) active)),
          n = length active)
     \<and> (n = length active \<longleftrightarrow> list_all (\<lambda>c. \<not> charge_throws stripe c) active))
   \<and> currentMonth_tryons (resetMonthlyUsage month c) = 0
   \<and> history (resetMonthlyUsage month c) = history c @ [(month, currentMonth_tryons c)]"
proof -
  have t: "(length (takeWhile P xs) = length xs) = list_all P xs" for P and xs :: "billing_customer list"
    by (induction xs) auto
  show ?thesis
    by (simp add: Let_def monthly_billing_job_def billing_loop_run resetMonthlyUsage_def
        processed_def t)
qed

text \<open>
  Witness of C2: a customer at 120 of 100 with the rate 0.50 and a collaborator that
  accepts every charge: one charge of 10.00, then usage 0 and 120 archived.
\<close>

theorem C2_billing_run_witness:
  "monthly_billing_job (\<lambda>req. True) ''2025-01'' [over_limit_A]
     = ([resetMonthlyUsage ''2025-01'' over_limit_A], [overage_charge over_limit_A], True)
   \<and> charge_amount (overage_charge over_limit_A) = 10
   \<and> currentMonth_tryons (resetMonthlyUsage ''2025-01'' over_limit_A) = 0
   \<and> history (resetMonthlyUsage ''2025-01'' over_limit_A) = [(''2025-01'', 120)]"
proof -
  have f: "filter (\<lambda>c. subscriptionStatus c = ''active'') [over_limit_A] = [over_limit_A]"
    by (simp add: over_limit_A_def)
  have n: "processed (\<lambda>req. True) [over_limit_A] = 1"
    by (simp add: processed_def charge_throws_def)
  have c: "snd (calculateOverage over_limit_A) > 0"
    by (simp add: calculateOverage_def over_limit_A_def)
  have a: "charge_amount (overage_charge over_limit_A) = 10"
    by (simp add: overage_charge_def calculateOverage_def over_limit_A_def)
  have h: "history over_limit_A = [] \<and> currentMonth_tryons over_limit_A = 120"
    by (simp add: over_limit_A_def)
  note t = C2_billing_run [of "[over_limit_A]" "\<lambda>req. True" "''2025-01''" over_limit_A]
  show ?thesis
    using t f n c a h by (simp add: Let_def)
qed

end
